theory Spec2Isabelle
  imports Complex_Main
begin

text \<open>
  The dynamic query engine of src/models/Query.js: the instance methods
  \<open>validateParameters\<close>, \<open>substituteParameters\<close> and \<open>recordExecution\<close> of the Query
  model, with the parts of the language and of the libraries they call
  (\<open>isNaN\<close>, relational comparison, \<open>JSON.stringify\<close>, \<open>JSON.parse\<close>,
  \<open>String.prototype.replace\<close>, \<open>Date\<close>, the BSON \<open>ObjectId\<close>).
\<close>

section \<open>JavaScript numbers\<close>

text \<open>
  A JavaScript Number is an IEEE double. The model keeps the three special values and
  takes every finite double as the rational it denotes: arithmetic on finite values is
  exact (binary rounding and overflow to an infinity are not modelled) and the negative
  zero is the zero.
\<close>

datatype jsnum = NaN | NegInf | Fin rat | PosInf



text \<open>The operators \<open><\<close>, \<open>>\<close>, \<open>>=\<close> on two Numbers: false as soon as one is NaN.\<close>

fun js_lt :: "jsnum \<Rightarrow> jsnum \<Rightarrow> bool" where
  "js_lt NaN _ = False"
| "js_lt _ NaN = False"
| "js_lt (Fin a) (Fin b) = (a < b)"
| "js_lt NegInf NegInf = False"
| "js_lt NegInf _ = True"
| "js_lt _ NegInf = False"
| "js_lt PosInf _ = False"
| "js_lt _ PosInf = True"

definition js_gt :: "jsnum \<Rightarrow> jsnum \<Rightarrow> bool" where
  "js_gt a b = js_lt b a"


section \<open>JavaScript values\<close>

text \<open>
  The values a request can carry and a stored query document holds: the JSON values.
  An object is the list of its own properties in the order \<open>Object.entries\<close> gives them;
  its keys are distinct.
\<close>

datatype jsval =
    JNull
  | JBool bool
  | JNum jsnum
  | JStr string
  | JArr "jsval list"
  | JObj "(string \<times> jsval) list"

section \<open>Conversions of the language\<close>

text \<open>What a call can throw: a TypeError or a SyntaxError of the language, a BSONError of the driver.\<close>

datatype js_error = TypeError | SyntaxError | BSONError

subsection \<open>Digits\<close>

text \<open>A string is a list of 8-bit code units.\<close>

definition is_digit :: "char \<Rightarrow> bool" where
  "is_digit c = (c \<in> set ''0123456789'')"

definition is_hex_digit :: "char \<Rightarrow> bool" where
  "is_hex_digit c = (c \<in> set ''0123456789abcdefABCDEF'')"

definition hex_val :: "char \<Rightarrow> int" where
  "hex_val c =
     (if is_digit c then of_char c - 48
      else if c \<in> set ''abcdef'' then of_char c - 87
      else of_char c - 55)"

definition radix_val :: "int \<Rightarrow> string \<Rightarrow> int" where
  "radix_val b ds = foldl (\<lambda>n c. b * n + hex_val c) 0 ds"

text \<open>The decimal digits of an integer \<open>n \<ge> 0\<close>.\<close>

definition digit_char :: "int \<Rightarrow> char" where
  "digit_char n = ''0123456789abcdef'' ! nat n"

function digits_of :: "int \<Rightarrow> string" where
  "digits_of n = (if n < 10 then [digit_char n] else digits_of (n div 10) @ [digit_char (n mod 10)])"
  by pat_completeness auto
termination
  by (relation "measure nat") auto

declare digits_of.simps [simp del]

definition pow10 :: "int \<Rightarrow> rat" where
  "pow10 e = (if 0 \<le> e then 10 ^ nat e else 1 / 10 ^ nat (- e))"

subsection \<open>StringToNumber\<close>

text \<open>
  The grammar \<open>StringNumericLiteral\<close> of ECMAScript: white space is trimmed, the empty
  string is 0, then a binary, octal or hexadecimal integer without sign, or a signed
  decimal literal (\<open>Infinity\<close>, digits with an optional fraction and exponent); anything
  else is NaN.
\<close>

definition is_StrWhiteSpaceChar :: "char \<Rightarrow> bool" where
  "is_StrWhiteSpaceChar c =
     (c \<in> set [CHR 0x09, CHR 0x0A, CHR 0x0B, CHR 0x0C, CHR 0x0D, CHR 0x20, CHR 0xA0])"

definition trim :: "string \<Rightarrow> string" where
  "trim s = rev (dropWhile is_StrWhiteSpaceChar (rev (dropWhile is_StrWhiteSpaceChar s)))"

definition ExponentPart :: "string \<Rightarrow> int option" where
  "ExponentPart r =
     (let (neg, ds) =
        (case r of
           [] \<Rightarrow> (False, [])
         | s # t \<Rightarrow> if s = CHR ''+'' then (False, t) else if s = CHR ''-'' then (True, t)
                    else (False, r))
      in if ds \<noteq> [] \<and> list_all is_digit ds
         then Some (if neg then - radix_val 10 ds else radix_val 10 ds)
         else None)"

definition StrUnsignedDecimalLiteral :: "string \<Rightarrow> jsnum" where
  "StrUnsignedDecimalLiteral s =
     (if s = ''Infinity'' then PosInf
      else
        let ip = takeWhile is_digit s;
            r1 = dropWhile is_digit s;
            (fp, r2) =
              (case r1 of
                 [] \<Rightarrow> ([], [])
               | c # r \<Rightarrow> if c = CHR ''.'' then (takeWhile is_digit r, dropWhile is_digit r)
                          else ([], r1));
            mant = of_int (radix_val 10 (ip @ fp))
        in if ip = [] \<and> fp = [] then NaN
           else
             (case r2 of
                [] \<Rightarrow> Fin (mant * pow10 (- int (length fp)))
              | c # r \<Rightarrow>
                  if c \<in> set ''eE''
                  then (case ExponentPart r of
                          None \<Rightarrow> NaN
                        | Some e \<Rightarrow> Fin (mant * pow10 (e - int (length fp))))
                  else NaN))"

fun js_neg :: "jsnum \<Rightarrow> jsnum" where
  "js_neg NaN = NaN"
| "js_neg PosInf = NegInf"
| "js_neg NegInf = PosInf"
| "js_neg (Fin q) = Fin (- q)"

definition StrDecimalLiteral :: "string \<Rightarrow> jsnum" where
  "StrDecimalLiteral s =
     (case s of
        [] \<Rightarrow> StrUnsignedDecimalLiteral s
      | c # r \<Rightarrow>
          if c = CHR ''+'' then StrUnsignedDecimalLiteral r
          else if c = CHR ''-'' then js_neg (StrUnsignedDecimalLiteral r)
          else StrUnsignedDecimalLiteral s)"

definition NonDecimalIntegerLiteral :: "string \<Rightarrow> jsnum option" where
  "NonDecimalIntegerLiteral s =
     (case s of
        z # x # ds \<Rightarrow>
          if z = CHR ''0'' \<and> ds \<noteq> [] then
            (if x \<in> set ''xX'' \<and> list_all is_hex_digit ds then Some (Fin (of_int (radix_val 16 ds)))
             else if x \<in> set ''oO'' \<and> list_all (\<lambda>c. c \<in> set ''01234567'') ds
               then Some (Fin (of_int (radix_val 8 ds)))
             else if x \<in> set ''bB'' \<and> list_all (\<lambda>c. c \<in> set ''01'') ds
               then Some (Fin (of_int (radix_val 2 ds)))
             else None)
          else None
      | _ \<Rightarrow> None)"

definition StringToNumber :: "string \<Rightarrow> jsnum" where
  "StringToNumber s =
     (let t = trim s
      in if t = [] then Fin 0
         else (case NonDecimalIntegerLiteral t of
                 Some n \<Rightarrow> n
               | None \<Rightarrow> StrDecimalLiteral t))"

subsection \<open>Number::toString\<close>

text \<open>
  The decimal text of a Number. With \<open>n\<close> the decimal exponent of \<open>x\<close>
  (\<open>10^(n-1) \<le> x < 10^n\<close>) and \<open>s\<close> its significant digits, the text is plain
  digits for \<open>-6 < n \<le> 21\<close> and the exponent form otherwise, as ECMAScript lays it out.
  The language takes for \<open>s\<close> the shortest digits that read back as the same double; the
  model, whose numbers are exact, takes the decimal expansion of \<open>x\<close> cut after 17
  significant digits: the same text for every integer below \<open>10^17\<close> and every
  decimal fraction of up to 15 significant digits.
\<close>

fun find_scale :: "nat \<Rightarrow> rat \<Rightarrow> nat \<Rightarrow> nat" where
  "find_scale 0 x j = j"
| "find_scale (Suc fuel) x j = (if 1 \<le> x * 10 ^ j then j else find_scale fuel x (Suc j))"

definition decimal_exponent :: "rat \<Rightarrow> int" where
  "decimal_exponent x =
     (if 1 \<le> x then int (length (digits_of \<lfloor>x\<rfloor>))
      else 1 - int (find_scale (length (digits_of (snd (quotient_of x)))) x 1))"

definition significant_digits :: "rat \<Rightarrow> int \<Rightarrow> string" where
  "significant_digits x n =
     (let ds = digits_of \<lfloor>x * pow10 (17 - n)\<rfloor>;
          s = rev (dropWhile (\<lambda>c. c = CHR ''0'') (rev ds))
      in if s = [] then ''0'' else s)"

definition positive_toString :: "rat \<Rightarrow> string" where
  "positive_toString x =
     (let n = decimal_exponent x;
          s = significant_digits x n;
          k = int (length s)
      in if k \<le> n \<and> n \<le> 21 then s @ replicate (nat (n - k)) (CHR ''0'')
         else if 0 < n \<and> n \<le> 21 then take (nat n) s @ ''.'' @ drop (nat n) s
         else if - 6 < n \<and> n \<le> 0 then ''0.'' @ replicate (nat (- n)) (CHR ''0'') @ s
         else
           (let e = n - 1;
                et = (if 0 \<le> e then ''+'' else ''-'') @ digits_of \<bar>e\<bar>
            in if k = 1 then s @ ''e'' @ et
               else take 1 s @ ''.'' @ drop 1 s @ ''e'' @ et))"

fun Number_toString :: "jsnum \<Rightarrow> string" where
  "Number_toString NaN = ''NaN''"
| "Number_toString PosInf = ''Infinity''"
| "Number_toString NegInf = ''-Infinity''"
| "Number_toString (Fin q) =
     (if q = 0 then ''0''
      else if q < 0 then ''-'' @ positive_toString (- q)
      else positive_toString q)"

subsection \<open>ToString, ToNumber, ToBoolean on a value\<close>

text \<open>
  \<open>ToString\<close> of an array is \<open>join(',')\<close>, where a null element is the empty string.
  An object goes through \<open>ToPrimitive\<close>: the inherited \<open>valueOf\<close> returns the object, so
  the result is that of \<open>toString\<close>, which is \<open>[object Object]\<close> unless the object has an
  own property \<open>toString\<close>; that property holds a JSON value, not a function, and the
  conversion throws a TypeError.
\<close>

fun ToString :: "jsval \<Rightarrow> js_error + string"
  and join_elements :: "jsval list \<Rightarrow> js_error + string" where
  "ToString JNull = Inr ''null''"
| "ToString (JBool b) = Inr (if b then ''true'' else ''false'')"
| "ToString (JNum n) = Inr (Number_toString n)"
| "ToString (JStr s) = Inr s"
| "ToString (JArr xs) = join_elements xs"
| "ToString (JObj kvs) =
     (if ''toString'' \<in> fst ` set kvs then Inl TypeError else Inr ''[object Object]'')"
| "join_elements [] = Inr []"
| "join_elements (x # xs) =
     (case (if x = JNull then Inr [] else ToString x) of
        Inl e \<Rightarrow> Inl e
      | Inr s \<Rightarrow>
          if xs = [] then Inr s
          else (case join_elements xs of Inl e \<Rightarrow> Inl e | Inr r \<Rightarrow> Inr (s @ '','' @ r)))"

fun ToNumber :: "jsval \<Rightarrow> js_error + jsnum" where
  "ToNumber JNull = Inr (Fin 0)"
| "ToNumber (JBool b) = Inr (Fin (if b then 1 else 0))"
| "ToNumber (JNum n) = Inr n"
| "ToNumber (JStr s) = Inr (StringToNumber s)"
| "ToNumber v = (case ToString v of Inl e \<Rightarrow> Inl e | Inr s \<Rightarrow> Inr (StringToNumber s))"

fun ToBoolean :: "jsval \<Rightarrow> bool" where
  "ToBoolean JNull = False"
| "ToBoolean (JBool b) = b"
| "ToBoolean (JNum n) = (n \<noteq> NaN \<and> n \<noteq> Fin 0)"
| "ToBoolean (JStr s) = (s \<noteq> [])"
| "ToBoolean v = True"

text \<open>The global \<open>isNaN(v)\<close>, and \<open>v < m\<close>, \<open>v > m\<close> against a Number \<open>m\<close>.\<close>

definition js_isNaN :: "jsval \<Rightarrow> js_error + bool" where
  "js_isNaN v = (case ToNumber v of Inl e \<Rightarrow> Inl e | Inr n \<Rightarrow> Inr (n = NaN))"

definition less_than :: "jsval \<Rightarrow> jsnum \<Rightarrow> js_error + bool" where
  "less_than v m = (case ToNumber v of Inl e \<Rightarrow> Inl e | Inr n \<Rightarrow> Inr (js_lt n m))"

definition greater_than :: "jsval \<Rightarrow> jsnum \<Rightarrow> js_error + bool" where
  "greater_than v m = (case ToNumber v of Inl e \<Rightarrow> Inl e | Inr n \<Rightarrow> Inr (js_gt n m))"

section \<open>JSON\<close>

subsection \<open>JSON.stringify\<close>

text \<open>
  \<open>QuoteJSONString\<close>: the double quote and the backslash are escaped, the control
  characters are written \<open>\b \t \n \f \r\<close> or \<open>\u00xx\<close>.
\<close>

definition quote_char :: "char \<Rightarrow> string" where
  "quote_char c =
     (if c = CHR 0x08 then [CHR 0x5C, CHR ''b'']
      else if c = CHR 0x09 then [CHR 0x5C, CHR ''t'']
      else if c = CHR 0x0A then [CHR 0x5C, CHR ''n'']
      else if c = CHR 0x0C then [CHR 0x5C, CHR ''f'']
      else if c = CHR 0x0D then [CHR 0x5C, CHR ''r'']
      else if c = CHR 0x22 then [CHR 0x5C, CHR 0x22]
      else if c = CHR 0x5C then [CHR 0x5C, CHR 0x5C]
      else if (of_char c :: int) < 32
        then [CHR 0x5C, CHR ''u'', CHR ''0'', CHR ''0'',
              digit_char (of_char c div 16), digit_char (of_char c mod 16)]
      else [c])"

definition QuoteJSONString :: "string \<Rightarrow> string" where
  "QuoteJSONString s = [CHR 0x22] @ concat (map quote_char s) @ [CHR 0x22]"

text \<open>
  \<open>JSON.stringify(value)\<close> with no replacer and no indentation. A Number that is not
  finite is written \<open>null\<close>.
\<close>

fun JSON_stringify :: "jsval \<Rightarrow> string"
  and stringify_elements :: "jsval list \<Rightarrow> string"
  and stringify_members :: "(string \<times> jsval) list \<Rightarrow> string" where
  "JSON_stringify JNull = ''null''"
| "JSON_stringify (JBool b) = (if b then ''true'' else ''false'')"
| "JSON_stringify (JNum n) = (case n of Fin q \<Rightarrow> Number_toString n | _ \<Rightarrow> ''null'')"
| "JSON_stringify (JStr s) = QuoteJSONString s"
| "JSON_stringify (JArr xs) = ''['' @ stringify_elements xs @ '']''"
| "JSON_stringify (JObj kvs) = ''{'' @ stringify_members kvs @ ''}''"
| "stringify_elements [] = []"
| "stringify_elements (x # xs) =
     (if xs = [] then JSON_stringify x else JSON_stringify x @ '','' @ stringify_elements xs)"
| "stringify_members [] = []"
| "stringify_members ((k, v) # kvs) =
     (if kvs = [] then QuoteJSONString k @ '':'' @ JSON_stringify v
      else QuoteJSONString k @ '':'' @ JSON_stringify v @ '','' @ stringify_members kvs)"

subsection \<open>JSON.parse\<close>

text \<open>
  The text is cut into tokens, and the tokens are read by a machine with a stack of the
  arrays and objects that are still open. Any text outside the JSON grammar is a
  SyntaxError. A string of the model holds code units below 256, so an escape
  \<open>\uXXXX\<close> above \<open>00FF\<close> has no value here: \<open>NotRepresentable\<close> marks it, apart from the
  errors of the language.
\<close>

datatype parse_error = JSONSyntaxError | NotRepresentable

datatype token =
    TLBrace | TRBrace | TLBracket | TRBracket | TColon | TComma
  | TString string | TNumber rat | TTrue | TFalse | TNull

definition escape_char :: "char \<Rightarrow> char option" where
  "escape_char e =
     (if e = CHR 0x22 then Some (CHR 0x22)
      else if e = CHR 0x5C then Some (CHR 0x5C)
      else if e = CHR ''/'' then Some (CHR ''/'')
      else if e = CHR ''b'' then Some (CHR 0x08)
      else if e = CHR ''f'' then Some (CHR 0x0C)
      else if e = CHR ''n'' then Some (CHR 0x0A)
      else if e = CHR ''r'' then Some (CHR 0x0D)
      else if e = CHR ''t'' then Some (CHR 0x09)
      else None)"

definition cons_char :: "char \<Rightarrow> parse_error + string \<times> string \<Rightarrow> parse_error + string \<times> string" where
  "cons_char c r = (case r of Inl e \<Rightarrow> Inl e | Inr (s, rest) \<Rightarrow> Inr (c # s, rest))"

text \<open>The characters of a string literal after its opening quote, and the text after its closing quote.\<close>

fun lex_string :: "string \<Rightarrow> parse_error + string \<times> string" where
  "lex_string [] = Inl JSONSyntaxError"
| "lex_string (c # cs) =
     (if c = CHR 0x22 then Inr ([], cs)
      else if c = CHR 0x5C then
        (case cs of
           [] \<Rightarrow> Inl JSONSyntaxError
         | e # r \<Rightarrow>
             if e = CHR ''u'' then
               (case r of
                  h1 # h2 # h3 # h4 # r' \<Rightarrow>
                    if list_all is_hex_digit [h1, h2, h3, h4] then
                      (if radix_val 16 [h1, h2, h3, h4] < 256
                       then cons_char (char_of (radix_val 16 [h1, h2, h3, h4])) (lex_string r')
                       else Inl NotRepresentable)
                    else Inl JSONSyntaxError
                | _ \<Rightarrow> Inl JSONSyntaxError)
             else
               (case escape_char e of
                  None \<Rightarrow> Inl JSONSyntaxError
                | Some ch \<Rightarrow> cons_char ch (lex_string r)))
      else if (of_char c :: int) < 32 then Inl JSONSyntaxError
      else cons_char c (lex_string cs))"

text \<open>
  A number literal \<open>-?(0|[1-9][0-9]*)(.[0-9]+)?([eE][+-]?[0-9]+)?\<close> and the text after it:
  the sign, the integer digits, the fraction, the exponent.
\<close>

definition number_sign :: "string \<Rightarrow> bool \<times> string" where
  "number_sign s =
     (case s of [] \<Rightarrow> (False, s) | c # r \<Rightarrow> if c = CHR ''-'' then (True, r) else (False, s))"

definition number_fraction :: "string \<Rightarrow> (string \<times> string) option" where
  "number_fraction s =
     (case s of
        [] \<Rightarrow> Some ([], s)
      | c # r \<Rightarrow>
          if c = CHR ''.''
          then (if takeWhile is_digit r = [] then None
                else Some (takeWhile is_digit r, dropWhile is_digit r))
          else Some ([], s))"

definition number_exponent :: "string \<Rightarrow> (int \<times> string) option" where
  "number_exponent s =
     (case s of
        [] \<Rightarrow> Some (0, s)
      | c # r \<Rightarrow>
          if c \<in> set ''eE''
          then (let (neg, ds) =
                  (case r of
                     [] \<Rightarrow> (False, r)
                   | g # t \<Rightarrow> if g = CHR ''+'' then (False, t) else if g = CHR ''-'' then (True, t)
                              else (False, r))
                in if takeWhile is_digit ds = [] then None
                   else Some (if neg then - radix_val 10 (takeWhile is_digit ds)
                              else radix_val 10 (takeWhile is_digit ds),
                              dropWhile is_digit ds))
          else Some (0, s))"

definition lex_number :: "string \<Rightarrow> (rat \<times> string) option" where
  "lex_number s =
     (let (neg, s1) = number_sign s;
          ip = takeWhile is_digit s1
      in if ip = [] \<or> (1 < length ip \<and> hd ip = CHR ''0'') then None
         else
           (case number_fraction (dropWhile is_digit s1) of
              None \<Rightarrow> None
            | Some (fp, r2) \<Rightarrow>
                (case number_exponent r2 of
                   None \<Rightarrow> None
                 | Some (e, r3) \<Rightarrow>
                     Some ((if neg then - 1 else 1) * of_int (radix_val 10 (ip @ fp))
                             * pow10 (e - int (length fp)), r3))))"

definition is_json_ws :: "char \<Rightarrow> bool" where
  "is_json_ws c = (c \<in> set [CHR 0x20, CHR 0x09, CHR 0x0A, CHR 0x0D])"

definition punctuation :: "char \<Rightarrow> token option" where
  "punctuation c =
     (if c = CHR ''{'' then Some TLBrace
      else if c = CHR ''}'' then Some TRBrace
      else if c = CHR ''['' then Some TLBracket
      else if c = CHR '']'' then Some TRBracket
      else if c = CHR '':'' then Some TColon
      else if c = CHR '','' then Some TComma
      else None)"

definition strip_prefix :: "string \<Rightarrow> string \<Rightarrow> string option" where
  "strip_prefix p s = (if take (length p) s = p then Some (drop (length p) s) else None)"

definition literal :: "string \<Rightarrow> (token \<times> string) option" where
  "literal s =
     (case strip_prefix ''true'' s of
        Some r \<Rightarrow> Some (TTrue, r)
      | None \<Rightarrow>
          (case strip_prefix ''false'' s of
             Some r \<Rightarrow> Some (TFalse, r)
           | None \<Rightarrow>
               (case strip_prefix ''null'' s of
                  Some r \<Rightarrow> Some (TNull, r)
                | None \<Rightarrow> None)))"

text \<open>The token at the head of a text that does not start with white space.\<close>

definition next_token :: "string \<Rightarrow> parse_error + token \<times> string" where
  "next_token s =
     (case s of
        [] \<Rightarrow> Inl JSONSyntaxError
      | c # cs \<Rightarrow>
          (case punctuation c of
             Some t \<Rightarrow> Inr (t, cs)
           | None \<Rightarrow>
               if c = CHR 0x22 then
                 (case lex_string cs of Inl e \<Rightarrow> Inl e | Inr (str, r) \<Rightarrow> Inr (TString str, r))
               else if c = CHR ''-'' \<or> is_digit c then
                 (case lex_number s of
                    None \<Rightarrow> Inl JSONSyntaxError
                  | Some (q, r) \<Rightarrow> Inr (TNumber q, r))
               else
                 (case literal s of
                    None \<Rightarrow> Inl JSONSyntaxError
                  | Some (t, r) \<Rightarrow> Inr (t, r))))"

lemma cons_char_shorter:
  "cons_char c x = Inr (s, r) \<Longrightarrow> \<exists>s'. x = Inr (s', r)"
  by (cases x) (auto simp: cons_char_def)

lemma lex_string_shorter: "lex_string cs = Inr (s, r) \<Longrightarrow> length r < length cs"
proof (induction cs arbitrary: s rule: lex_string.induct)
  case 1
  then show ?case by simp
next
  case (2 c cs)
  show ?case
  proof (cases "c = CHR 0x22")
    case True
    with "2.prems" show ?thesis by simp
  next
    case quote: False
    show ?thesis
    proof (cases "c = CHR 0x5C")
      case False
      with quote "2.prems" obtain s' where "lex_string cs = Inr (s', r)"
        by (auto dest: cons_char_shorter split: if_splits)
      with "2.IH"(3) quote False "2.prems" have "length r < length cs"
        by (auto split: if_splits)
      then show ?thesis by simp
    next
      case True
      with quote "2.prems" obtain e t where cs: "cs = e # t"
        by (cases cs) auto
      show ?thesis
      proof (cases "e = CHR ''u''")
        case False
        with quote True cs "2.prems" obtain ch s' where
          "escape_char e = Some ch" "lex_string t = Inr (s', r)"
          by (auto dest: cons_char_shorter split: option.splits)
        with "2.IH"(2) [OF quote True cs False] have "length r < length t"
          by auto
        with cs show ?thesis by simp
      next
        case u: True
        with quote True cs "2.prems" obtain h1 h2 h3 h4 t' where
          t: "t = h1 # h2 # h3 # h4 # t'"
          by (auto split: list.splits)
        with quote True cs u "2.prems" obtain s' where
          ok: "list_all is_hex_digit [h1, h2, h3, h4]" "radix_val 16 [h1, h2, h3, h4] < 256"
          and "lex_string t' = Inr (s', r)"
          by (auto dest: cons_char_shorter split: if_splits)
        with "2.IH"(1) [OF quote True cs u t] have "length r < length t'"
          by auto
        with cs t show ?thesis by simp
      qed
    qed
  qed
qed

lemma number_sign_shorter: "number_sign s = (neg, r) \<Longrightarrow> length r \<le> length s"
  by (auto simp: number_sign_def split: list.splits if_splits)

lemma number_fraction_shorter: "number_fraction s = Some (fp, r) \<Longrightarrow> length r \<le> length s"
  by (auto simp: number_fraction_def le_SucI length_dropWhile_le split: list.splits if_splits)

lemma number_exponent_shorter: "number_exponent s = Some (e, r) \<Longrightarrow> length r \<le> length s"
  by (auto simp: number_exponent_def Let_def le_SucI length_dropWhile_le
      split: list.splits if_splits)

lemma digits_consumed: "takeWhile P xs \<noteq> [] \<Longrightarrow> length (dropWhile P xs) < length xs"
  by (cases xs) (auto simp: less_Suc_eq_le length_dropWhile_le split: if_splits)

lemma lex_number_shorter:
  assumes "lex_number s = Some (q, r)"
  shows "length r < length s"
proof -
  obtain neg s1 where sign: "number_sign s = (neg, s1)"
    by (cases "number_sign s")
  with assms have ip: "takeWhile is_digit s1 \<noteq> []"
    by (auto simp: lex_number_def Let_def split: if_splits)
  with assms sign obtain fp r2 where
    frac: "number_fraction (dropWhile is_digit s1) = Some (fp, r2)"
    by (auto simp: lex_number_def Let_def split: if_splits option.splits)
  with assms sign ip obtain e where ex: "number_exponent r2 = Some (e, r)"
    by (auto simp: lex_number_def Let_def split: if_splits option.splits)
  have "length r \<le> length r2"
    using ex by (rule number_exponent_shorter)
  also have "\<dots> \<le> length (dropWhile is_digit s1)"
    using frac by (rule number_fraction_shorter)
  also have "\<dots> < length s1"
    using ip by (rule digits_consumed)
  also have "\<dots> \<le> length s"
    using sign by (rule number_sign_shorter)
  finally show ?thesis .
qed

lemma strip_prefix_shorter: "strip_prefix p s = Some r \<Longrightarrow> p \<noteq> [] \<Longrightarrow> length r < length s"
  by (cases s) (auto simp: strip_prefix_def split: if_splits)

lemma literal_shorter: "literal s = Some (t, r) \<Longrightarrow> length r < length s"
  by (auto simp: literal_def dest: strip_prefix_shorter split: option.splits)

lemma next_token_shorter:
  assumes "next_token s = Inr (t, r)"
  shows "length r < length s"
proof (cases s)
  case Nil
  with assms show ?thesis by (simp add: next_token_def)
next
  case (Cons c cs)
  show ?thesis
  proof (cases "punctuation c")
    case (Some p)
    with assms Cons show ?thesis by (simp add: next_token_def)
  next
    case None
    show ?thesis
    proof (cases "c = CHR 0x22")
      case True
      with assms Cons None obtain x where "lex_string cs = Inr (x, r)"
        by (auto simp: next_token_def split: sum.splits)
      then have "length r < length cs"
        by (rule lex_string_shorter)
      with Cons show ?thesis by simp
    next
      case quote: False
      show ?thesis
      proof (cases "c = CHR ''-'' \<or> is_digit c")
        case True
        with assms Cons None quote obtain q where "lex_number s = Some (q, r)"
          by (auto simp: next_token_def split: option.splits)
        then show ?thesis
          by (rule lex_number_shorter)
      next
        case False
        with assms Cons None quote have "literal s = Some (t, r)"
          by (auto simp: next_token_def split: option.splits)
        then show ?thesis
          by (rule literal_shorter)
      qed
    qed
  qed
qed

function tokens :: "string \<Rightarrow> parse_error + token list" where
  "tokens s =
     (let s' = dropWhile is_json_ws s
      in if s' = [] then Inr []
         else (case next_token s' of
                 Inl e \<Rightarrow> Inl e
               | Inr (t, r) \<Rightarrow>
                   (case tokens r of Inl e \<Rightarrow> Inl e | Inr ts \<Rightarrow> Inr (t # ts))))"
  by pat_completeness auto
termination
proof (relation "measure length")
  show "wf (measure length)"
    by simp
next
  fix s s' :: string and x t r
  assume "s' = dropWhile is_json_ws s" "next_token s' = Inr x" "(t, r) = x"
  then have "length r < length (dropWhile is_json_ws s)"
    using next_token_shorter [of s' t r] by simp
  also have "\<dots> \<le> length s"
    by (rule length_dropWhile_le)
  finally show "(r, s) \<in> measure length"
    by simp
qed

declare tokens.simps [simp del]

text \<open>
  \<open>CreateDataProperty\<close> on the object under construction: a key that is already there keeps
  its place and takes the new value; a new key that is an array index goes among the
  index keys in ascending order, which come first; any other new key goes last.
\<close>

definition is_array_index :: "string \<Rightarrow> bool" where
  "is_array_index k =
     (k \<noteq> [] \<and> list_all is_digit k \<and> (k = ''0'' \<or> hd k \<noteq> CHR ''0'')
      \<and> radix_val 10 k < 4294967295)"

definition CreateDataProperty :: "(string \<times> jsval) list \<Rightarrow> string \<Rightarrow> jsval \<Rightarrow> (string \<times> jsval) list" where
  "CreateDataProperty kvs k v =
     (if k \<in> fst ` set kvs then map (\<lambda>(k', v'). if k' = k then (k', v) else (k', v')) kvs
      else if is_array_index k then
        takeWhile (\<lambda>(k', v'). is_array_index k' \<and> radix_val 10 k' < radix_val 10 k) kvs
        @ [(k, v)]
        @ dropWhile (\<lambda>(k', v'). is_array_index k' \<and> radix_val 10 k' < radix_val 10 k) kvs
      else kvs @ [(k, v)])"

datatype frame = ArrayFrame "jsval list" | ObjectFrame "(string \<times> jsval) list" "string option"

datatype expect = Value | ValueOrEnd | KeyOrEnd | Key | Colon | CommaOrEnd | Finished jsval

fun complete :: "jsval \<Rightarrow> frame list \<Rightarrow> (expect \<times> frame list) option" where
  "complete v [] = Some (Finished v, [])"
| "complete v (ArrayFrame acc # st) = Some (CommaOrEnd, ArrayFrame (acc @ [v]) # st)"
| "complete v (ObjectFrame kvs (Some k) # st) =
     Some (CommaOrEnd, ObjectFrame (CreateDataProperty kvs k v) None # st)"
| "complete v (ObjectFrame kvs None # st) = None"

fun begin_value :: "token \<Rightarrow> frame list \<Rightarrow> (expect \<times> frame list) option" where
  "begin_value (TString s) st = complete (JStr s) st"
| "begin_value (TNumber q) st = complete (JNum (Fin q)) st"
| "begin_value TTrue st = complete (JBool True) st"
| "begin_value TFalse st = complete (JBool False) st"
| "begin_value TNull st = complete JNull st"
| "begin_value TLBracket st = Some (ValueOrEnd, ArrayFrame [] # st)"
| "begin_value TLBrace st = Some (KeyOrEnd, ObjectFrame [] None # st)"
| "begin_value _ st = None"

fun close_array :: "frame list \<Rightarrow> (expect \<times> frame list) option" where
  "close_array (ArrayFrame acc # st) = complete (JArr acc) st"
| "close_array _ = None"

fun close_object :: "frame list \<Rightarrow> (expect \<times> frame list) option" where
  "close_object (ObjectFrame kvs None # st) = complete (JObj kvs) st"
| "close_object _ = None"

fun set_key :: "string \<Rightarrow> frame list \<Rightarrow> (expect \<times> frame list) option" where
  "set_key k (ObjectFrame kvs None # st) = Some (Colon, ObjectFrame kvs (Some k) # st)"
| "set_key k _ = None"

fun step :: "expect \<Rightarrow> frame list \<Rightarrow> token \<Rightarrow> (expect \<times> frame list) option" where
  "step Value st t = begin_value t st"
| "step ValueOrEnd st t = (if t = TRBracket then close_array st else begin_value t st)"
| "step KeyOrEnd st t =
     (case t of TString k \<Rightarrow> set_key k st | TRBrace \<Rightarrow> close_object st | _ \<Rightarrow> None)"
| "step Key st t = (case t of TString k \<Rightarrow> set_key k st | _ \<Rightarrow> None)"
| "step Colon st t = (if t = TColon then Some (Value, st) else None)"
| "step CommaOrEnd st t =
     (case st of
        [] \<Rightarrow> None
      | ArrayFrame acc # st' \<Rightarrow>
          if t = TComma then Some (Value, st)
          else if t = TRBracket then close_array st else None
      | ObjectFrame kvs k # st' \<Rightarrow>
          if t = TComma then Some (Key, st)
          else if t = TRBrace then close_object st else None)"
| "step (Finished v) st t = None"

fun run :: "expect \<Rightarrow> frame list \<Rightarrow> token list \<Rightarrow> jsval option" where
  "run e st [] = (case e of Finished v \<Rightarrow> Some v | _ \<Rightarrow> None)"
| "run e st (t # ts) = (case step e st t of None \<Rightarrow> None | Some (e', st') \<Rightarrow> run e' st' ts)"

definition JSON_parse :: "string \<Rightarrow> parse_error + jsval" where
  "JSON_parse s =
     (case tokens s of
        Inl e \<Rightarrow> Inl e
      | Inr ts \<Rightarrow> (case run Value [] ts of None \<Rightarrow> Inl JSONSyntaxError | Some v \<Rightarrow> Inr v))"

section \<open>String.prototype.replace with a global pattern\<close>

text \<open>
  \<open>GetSubstitution\<close>: in the replacement text \<open>$$\<close> is a dollar, \<open>$&\<close> the matched text,
  \<open>$`\<close> the text before the match and \<open>$'\<close> the text after it; the pattern has no
  capture group, so every other \<open>$\<close> stands for itself.
\<close>

fun GetSubstitution :: "string \<Rightarrow> string \<Rightarrow> string \<Rightarrow> string \<Rightarrow> string" where
  "GetSubstitution matched preceding following [] = []"
| "GetSubstitution matched preceding following [c] = [c]"
| "GetSubstitution matched preceding following (c # d # r) =
     (if c = CHR ''$'' \<and> d = CHR ''$'' then CHR ''$'' # GetSubstitution matched preceding following r
      else if c = CHR ''$'' \<and> d = CHR ''&'' then matched @ GetSubstitution matched preceding following r
      else if c = CHR ''$'' \<and> d = CHR 0x60 then preceding @ GetSubstitution matched preceding following r
      else if c = CHR ''$'' \<and> d = CHR 0x27 then following @ GetSubstitution matched preceding following r
      else c # GetSubstitution matched preceding following (d # r))"

text \<open>
  \<open>str.replace(regex, replacement)\<close> where \<open>regex\<close> is the global pattern that matches the
  text \<open>pat\<close> and nothing else: line 228 escapes every syntax character of the
  placeholder, so the pattern built from it matches the placeholder itself. The matches
  are taken from left to right without overlap; \<open>preceding\<close> is the text already passed.
\<close>

function replace_matches :: "string \<Rightarrow> string \<Rightarrow> string \<Rightarrow> string \<Rightarrow> string" where
  "replace_matches pat replacement preceding str =
     (if str = [] then []
      else if pat \<noteq> [] \<and> take (length pat) str = pat then
        GetSubstitution pat preceding (drop (length pat) str) replacement
        @ replace_matches pat replacement (preceding @ pat) (drop (length pat) str)
      else hd str # replace_matches pat replacement (preceding @ [hd str]) (tl str))"
  by pat_completeness auto
termination
  by (relation "measure (\<lambda>(pat, replacement, preceding, str). length str)") auto

declare replace_matches.simps [simp del]

definition replace_global :: "string \<Rightarrow> string \<Rightarrow> string \<Rightarrow> string" where
  "replace_global str pat replacement = replace_matches pat replacement [] str"

section \<open>The runtime\<close>

text \<open>
  Two functions of the runtime are parameters of the model. \<open>Date.parse\<close> is fixed by
  the language for the ISO format only and left to the implementation otherwise; it
  returns NaN or a time value. A BSON ObjectId created without a hex string is
  generated from the clock, the process and a counter; \<open>ObjectId_generate\<close> gives its 24
  hex digits, from the time argument if there is one.
\<close>

record runtime =
  Date_parse :: "string \<Rightarrow> jsnum"
  ObjectId_generate :: "jsnum option \<Rightarrow> string"

subsection \<open>Date\<close>

definition TimeClip :: "jsnum \<Rightarrow> jsnum" where
  "TimeClip t =
     (case t of
        Fin q \<Rightarrow>
          if 8640000000000000 < \<bar>q\<bar> then NaN
          else Fin (of_int (if 0 \<le> q then \<lfloor>q\<rfloor> else - \<lfloor>- q\<rfloor>))
      | _ \<Rightarrow> NaN)"

text \<open>The time value of \<open>new Date(value)\<close>.\<close>

definition Date_construct :: "runtime \<Rightarrow> jsval \<Rightarrow> js_error + jsnum" where
  "Date_construct rt v =
     (case v of
        JStr s \<Rightarrow> Inr (TimeClip (Date_parse rt s))
      | JArr xs \<Rightarrow>
          (case ToString v of Inl e \<Rightarrow> Inl e | Inr s \<Rightarrow> Inr (TimeClip (Date_parse rt s)))
      | JObj kvs \<Rightarrow>
          (case ToString v of Inl e \<Rightarrow> Inl e | Inr s \<Rightarrow> Inr (TimeClip (Date_parse rt s)))
      | _ \<Rightarrow> (case ToNumber v of Inl e \<Rightarrow> Inl e | Inr n \<Rightarrow> Inr (TimeClip n)))"

definition pad :: "nat \<Rightarrow> int \<Rightarrow> string" where
  "pad w n = replicate (w - length (digits_of n)) (CHR ''0'') @ digits_of n"

text \<open>The civil date of a day number (days since 1970-01-01), as (year, month, day).\<close>

definition civil_from_days :: "int \<Rightarrow> int \<times> int \<times> int" where
  "civil_from_days days =
     (let z = days + 719468;
          era = z div 146097;
          doe = z - era * 146097;
          yoe = (doe - doe div 1460 + doe div 36524 - doe div 146096) div 365;
          doy = doe - (365 * yoe + yoe div 4 - yoe div 100);
          mp = (5 * doy + 2) div 153;
          d = doy - (153 * mp + 2) div 5 + 1;
          m = (if mp < 10 then mp + 3 else mp - 9);
          y = yoe + era * 400 + (if m \<le> 2 then 1 else 0)
      in (y, m, d))"

definition toISOString :: "int \<Rightarrow> string" where
  "toISOString t =
     (let (y, m, d) = civil_from_days (t div 86400000);
          ms = t mod 86400000;
          year = (if 0 \<le> y \<and> y \<le> 9999 then pad 4 y
                  else (if y < 0 then ''-'' else ''+'') @ pad 6 \<bar>y\<bar>)
      in year @ ''-'' @ pad 2 m @ ''-'' @ pad 2 d @ ''T''
         @ pad 2 (ms div 3600000) @ '':'' @ pad 2 (ms mod 3600000 div 60000) @ '':''
         @ pad 2 (ms mod 60000 div 1000) @ ''.'' @ pad 3 (ms mod 1000) @ ''Z'')"

text \<open>\<open>JSON.stringify\<close> of a Date: its \<open>toJSON\<close> is the ISO string, or null for an invalid date.\<close>

definition Date_stringify :: "jsnum \<Rightarrow> string" where
  "Date_stringify tv = (case tv of Fin q \<Rightarrow> QuoteJSONString (toISOString \<lfloor>q\<rfloor>) | _ \<Rightarrow> ''null'')"

subsection \<open>ObjectId (bson 6, the driver of Mongoose 8)\<close>

text \<open>
  \<open>new ObjectId(inputId)\<close>, as its 24 hex digits. An object with a property \<open>id\<close> stands
  for that property, which has to be a string. Then null and a Number generate an id, a
  string of 24 hex digits is that id, and everything else throws.
\<close>

definition to_lower :: "char \<Rightarrow> char" where
  "to_lower c = (if c \<in> set ''ABCDEF'' then char_of (of_char c + (32::nat)) else c)"

definition from_workingId :: "runtime \<Rightarrow> jsval \<Rightarrow> js_error + string" where
  "from_workingId rt workingId =
     (case workingId of
        JNull \<Rightarrow> Inr (ObjectId_generate rt None)
      | JNum n \<Rightarrow> Inr (ObjectId_generate rt (Some n))
      | JStr s \<Rightarrow>
          if length s = 24 \<and> list_all is_hex_digit s then Inr (map to_lower s)
          else Inl BSONError
      | _ \<Rightarrow> Inl BSONError)"

definition ObjectId_construct :: "runtime \<Rightarrow> jsval \<Rightarrow> js_error + string" where
  "ObjectId_construct rt inputId =
     (case inputId of
        JObj kvs \<Rightarrow>
          (case map_of kvs ''id'' of
             None \<Rightarrow> from_workingId rt inputId
           | Some (JStr s) \<Rightarrow> from_workingId rt (JStr s)
           | Some _ \<Rightarrow> Inl BSONError)
      | _ \<Rightarrow> from_workingId rt inputId)"

text \<open>\<open>ObjectId.isValid(id)\<close>: false for null, else whether the constructor accepts \<open>id\<close>.\<close>

definition ObjectId_isValid :: "runtime \<Rightarrow> jsval \<Rightarrow> bool" where
  "ObjectId_isValid rt v =
     (if v = JNull then False
      else (case ObjectId_construct rt v of Inl e \<Rightarrow> False | Inr h \<Rightarrow> True))"

section \<open>The Query model (src/models/Query.js)\<close>

datatype param_type = TyString | TyNumber | TyBoolean | TyDate | TyObjectId

text \<open>
  \<open>validation: { min, max, pattern, enum }\<close> of a parameter schema. A field that is not
  set is \<open>undefined\<close> in the source and \<open>None\<close> here.
\<close>

record validation =
  vmin :: "jsnum option"
  vmax :: "jsnum option"
  pattern :: "string option"
  venum :: "string list option"

text \<open>\<open>parameterSchema\<close>; \<open>ptype\<close> is the field \<open>type\<close>.\<close>

record parameter =
  name :: string
  ptype :: param_type
  required :: bool
  description :: "string option"
  defaultValue :: "jsval option"
  validation :: "validation option"

datatype collection_name = Users | Universities | Faculties | Carts

datatype category_name = Search | Filter | Aggregate | Report

text \<open>
  \<open>querySchema\<close>; \<open>qname\<close> and \<open>qdescription\<close> are the fields \<open>name\<close> and
  \<open>description\<close>. A Date is its time value, the milliseconds since the epoch;
  \<open>lastExecuted\<close> is \<open>None\<close> until the first execution. \<open>executionCount\<close> starts at
  the default 0 and is only ever written by \<open>+= 1\<close>, so it is an integer.
\<close>

record query_template =
  qname :: string
  qdescription :: "string option"
  collection :: collection_name
  query :: jsval
  parameters :: "parameter list"
  active :: bool
  category :: category_name
  executionCount :: int
  lastExecuted :: "int option"
  averageExecutionTime :: jsnum
  createdBy :: "string option"
  tags :: "string list"

subsection \<open>validateParameters\<close>

text \<open>The error messages, lines 161-213.\<close>

definition quoted :: "string \<Rightarrow> string" where
  "quoted n = [CHR 0x27] @ n @ [CHR 0x27]"

definition required_message :: "string \<Rightarrow> string" where
  "required_message n = ''Required parameter '' @ quoted n @ '' is missing''"

definition unknown_message :: "string \<Rightarrow> string" where
  "unknown_message n = ''Unknown parameter '' @ quoted n"

definition parameter_message :: "string \<Rightarrow> string \<Rightarrow> string" where
  "parameter_message n what = ''Parameter '' @ quoted n @ '' must be '' @ what"

definition number_message :: "string \<Rightarrow> string" where
  "number_message n = parameter_message n ''a number''"

definition boolean_message :: "string \<Rightarrow> string" where
  "boolean_message n = parameter_message n ''a boolean''"

definition date_message :: "string \<Rightarrow> string" where
  "date_message n = parameter_message n ''a valid date''"

definition objectId_message :: "string \<Rightarrow> string" where
  "objectId_message n = parameter_message n ''a valid ObjectId''"

definition at_least_message :: "string \<Rightarrow> jsnum \<Rightarrow> string" where
  "at_least_message n m = parameter_message n (''at least '' @ Number_toString m)"

definition at_most_message :: "string \<Rightarrow> jsnum \<Rightarrow> string" where
  "at_most_message n m = parameter_message n (''at most '' @ Number_toString m)"

fun join :: "string \<Rightarrow> string list \<Rightarrow> string" where
  "join sep [] = []"
| "join sep [x] = x"
| "join sep (x # y # ys) = x @ sep @ join sep (y # ys)"

definition enum_message :: "string \<Rightarrow> string list \<Rightarrow> string" where
  "enum_message n en = parameter_message n (''one of: '' @ join '', '' en)"

text \<open>
  \<open>providedParams.hasOwnProperty(key)\<close>. The method is looked up on the object itself
  first: an own property \<open>hasOwnProperty\<close> holds a JSON value, and calling it throws a
  TypeError. Otherwise the inherited method tells whether \<open>key\<close> is an own property.
\<close>

definition hasOwnProperty :: "(string \<times> jsval) list \<Rightarrow> string \<Rightarrow> js_error + bool" where
  "hasOwnProperty obj key =
     (if ''hasOwnProperty'' \<in> fst ` set obj then Inl TypeError
      else Inr (key \<in> fst ` set obj))"

text \<open>
  The first loop, lines 159-163; \<open>errors\<close> is the array of messages so far. The call of
  \<open>hasOwnProperty\<close> is reached for a required parameter only.
\<close>

fun check_required :: "(string \<times> jsval) list \<Rightarrow> parameter list \<Rightarrow> string list \<Rightarrow> js_error + string list" where
  "check_required providedParams [] errors = Inr errors"
| "check_required providedParams (param # params) errors =
     (if required param then
        (case hasOwnProperty providedParams (name param) of
           Inl e \<Rightarrow> Inl e
         | Inr has \<Rightarrow>
             if \<not> has
             then check_required providedParams params (errors @ [required_message (name param)])
             else check_required providedParams params errors)
      else check_required providedParams params errors)"

text \<open>The type validation of one parameter, lines 175-196: the messages it pushes.\<close>

definition type_validation :: "runtime \<Rightarrow> parameter \<Rightarrow> string \<Rightarrow> jsval \<Rightarrow> js_error + string list" where
  "type_validation rt paramDef paramName paramValue =
     (case ptype paramDef of
        TyNumber \<Rightarrow>
          (case js_isNaN paramValue of
             Inl e \<Rightarrow> Inl e
           | Inr nan \<Rightarrow> Inr (if nan then [number_message paramName] else []))
      | TyBoolean \<Rightarrow>
          Inr (case paramValue of JBool b \<Rightarrow> [] | _ \<Rightarrow> [boolean_message paramName])
      | TyDate \<Rightarrow>
          (case ToString paramValue of
             Inl e \<Rightarrow> Inl e
           | Inr str \<Rightarrow> Inr (if Date_parse rt str = NaN then [date_message paramName] else []))
      | TyObjectId \<Rightarrow>
          Inr (if \<not> ObjectId_isValid rt paramValue then [objectId_message paramName] else [])
      | TyString \<Rightarrow> Inr [])"

text \<open>The range validation, lines 199-208.\<close>

definition min_validation :: "validation \<Rightarrow> string \<Rightarrow> jsval \<Rightarrow> js_error + string list" where
  "min_validation vd paramName paramValue =
     (case vmin vd of
        None \<Rightarrow> Inr []
      | Some m \<Rightarrow>
          (case less_than paramValue m of
             Inl e \<Rightarrow> Inl e
           | Inr lt \<Rightarrow> Inr (if lt then [at_least_message paramName m] else [])))"

definition max_validation :: "validation \<Rightarrow> string \<Rightarrow> jsval \<Rightarrow> js_error + string list" where
  "max_validation vd paramName paramValue =
     (case vmax vd of
        None \<Rightarrow> Inr []
      | Some m \<Rightarrow>
          (case greater_than paramValue m of
             Inl e \<Rightarrow> Inl e
           | Inr gt \<Rightarrow> Inr (if gt then [at_most_message paramName m] else [])))"

definition range_validation :: "parameter \<Rightarrow> string \<Rightarrow> jsval \<Rightarrow> js_error + string list" where
  "range_validation paramDef paramName paramValue =
     (if ptype paramDef = TyNumber then
        (case js_isNaN paramValue of
           Inl e \<Rightarrow> Inl e
         | Inr nan \<Rightarrow>
             if \<not> nan then
               (case validation paramDef of
                  None \<Rightarrow> Inr []
                | Some vd \<Rightarrow>
                    (case min_validation vd paramName paramValue of
                       Inl e \<Rightarrow> Inl e
                     | Inr lo \<Rightarrow>
                         (case max_validation vd paramName paramValue of
                            Inl e \<Rightarrow> Inl e
                          | Inr hi \<Rightarrow> Inr (lo @ hi))))
             else Inr [])
      else Inr [])"

text \<open>
  The enum validation, lines 211-215. The list \<open>enum\<close> holds strings, and \<open>includes\<close>
  compares without conversion: only a string value can be in it.
\<close>

definition Array_includes :: "string list \<Rightarrow> jsval \<Rightarrow> bool" where
  "Array_includes en v = (case v of JStr s \<Rightarrow> s \<in> set en | _ \<Rightarrow> False)"

definition enum_validation :: "parameter \<Rightarrow> string \<Rightarrow> jsval \<Rightarrow> string list" where
  "enum_validation paramDef paramName paramValue =
     (case validation paramDef of
        None \<Rightarrow> []
      | Some vd \<Rightarrow>
          (case venum vd of
             None \<Rightarrow> []
           | Some en \<Rightarrow> if \<not> Array_includes en paramValue then [enum_message paramName en] else []))"

text \<open>The body of the second loop, lines 167-215: the messages one entry pushes.\<close>

definition check_entry :: "runtime \<Rightarrow> query_template \<Rightarrow> string \<times> jsval \<Rightarrow> js_error + string list" where
  "check_entry rt this entry =
     (case entry of (paramName, paramValue) \<Rightarrow>
        (case find (\<lambda>p. name p = paramName) (parameters this) of
           None \<Rightarrow> Inr [unknown_message paramName]
         | Some paramDef \<Rightarrow>
             (case type_validation rt paramDef paramName paramValue of
                Inl e \<Rightarrow> Inl e
              | Inr ts \<Rightarrow>
                  (case range_validation paramDef paramName paramValue of
                     Inl e \<Rightarrow> Inl e
                   | Inr rs \<Rightarrow> Inr (ts @ rs @ enum_validation paramDef paramName paramValue)))))"

text \<open>The second loop, lines 166-216, over \<open>Object.entries(providedParams)\<close>.\<close>

fun check_entries :: "runtime \<Rightarrow> query_template \<Rightarrow> (string \<times> jsval) list \<Rightarrow> string list \<Rightarrow> js_error + string list" where
  "check_entries rt this [] errors = Inr errors"
| "check_entries rt this (entry # entries) errors =
     (case check_entry rt this entry of
        Inl e \<Rightarrow> Inl e
      | Inr new \<Rightarrow> check_entries rt this entries (errors @ new))"

text \<open>\<open>validateParameters(providedParams)\<close>, lines 155-219.\<close>

definition validateParameters :: "runtime \<Rightarrow> query_template \<Rightarrow> (string \<times> jsval) list \<Rightarrow> js_error + string list" where
  "validateParameters rt this providedParams =
     (case check_required providedParams (parameters this) [] of
        Inl e \<Rightarrow> Inl e
      | Inr errors \<Rightarrow> check_entries rt this providedParams errors)"

subsection \<open>substituteParameters\<close>

text \<open>
  The JSON text of \<open>substitutionValue\<close>, lines 231-253 and the \<open>JSON.stringify\<close> of line
  255: the value converted to the declared type of the parameter, or the value itself
  when the type is string or the parameter is not declared.
\<close>

definition substitution_text :: "runtime \<Rightarrow> parameter option \<Rightarrow> jsval \<Rightarrow> js_error + string" where
  "substitution_text rt paramDef paramValue =
     (case paramDef of
        None \<Rightarrow> Inr (JSON_stringify paramValue)
      | Some pd \<Rightarrow>
          (case ptype pd of
             TyNumber \<Rightarrow>
               (case ToNumber paramValue of
                  Inl e \<Rightarrow> Inl e
                | Inr n \<Rightarrow> Inr (JSON_stringify (JNum n)))
           | TyBoolean \<Rightarrow> Inr (JSON_stringify (JBool (ToBoolean paramValue)))
           | TyDate \<Rightarrow>
               (case Date_construct rt paramValue of
                  Inl e \<Rightarrow> Inl e
                | Inr tv \<Rightarrow> Inr (Date_stringify tv))
           | TyObjectId \<Rightarrow>
               (case ObjectId_construct rt paramValue of
                  Inl e \<Rightarrow> Inl e
                | Inr h \<Rightarrow> Inr (QuoteJSONString h))
           | TyString \<Rightarrow> Inr (JSON_stringify paramValue)))"

text \<open>The loop of lines 226-256 on \<open>queryString\<close>.\<close>

fun substitute_entries :: "runtime \<Rightarrow> query_template \<Rightarrow> (string \<times> jsval) list \<Rightarrow> string \<Rightarrow> js_error + string" where
  "substitute_entries rt this [] queryString = Inr queryString"
| "substitute_entries rt this ((paramName, paramValue) # entries) queryString =
     (let placeholder = ''{{'' @ paramName @ ''}}'';
          paramDef = find (\<lambda>p. name p = paramName) (parameters this)
      in case substitution_text rt paramDef paramValue of
           Inl e \<Rightarrow> Inl e
         | Inr json \<Rightarrow>
             substitute_entries rt this entries (replace_global queryString placeholder json))"

text \<open>
  \<open>substituteParameters(parameters)\<close>, lines 222-259. The result is the parsed document,
  an error thrown on the way, or \<open>OutsideModel\<close> where the text holds an escape
  that the strings of the model cannot hold.
\<close>

datatype substitute_result = Document jsval | Thrown js_error | OutsideModel

definition substituteParameters :: "runtime \<Rightarrow> query_template \<Rightarrow> (string \<times> jsval) list \<Rightarrow> substitute_result" where
  "substituteParameters rt this params =
     (case substitute_entries rt this params (JSON_stringify (query this)) of
        Inl e \<Rightarrow> Thrown e
      | Inr queryString \<Rightarrow>
          (case JSON_parse queryString of
             Inl JSONSyntaxError \<Rightarrow> Thrown SyntaxError
           | Inl NotRepresentable \<Rightarrow> OutsideModel
           | Inr document \<Rightarrow> Document document))"

subsection \<open>recordExecution\<close>


text \<open>A template as the schema defaults leave it, for the examples.\<close>

definition fresh_template :: query_template where
  "fresh_template =
     \<lparr>qname = ''findByUni'', qdescription = None, collection = Universities,
      query = JObj [], parameters = [], active = True, category = Search,
      executionCount = 0, lastExecuted = None, averageExecutionTime = Fin 0,
      createdBy = None, tags = []\<rparr>"

section \<open>Notions of the specification\<close>

text \<open>
  A template with every \<open>validation.pattern\<close> erased: two templates are identical except
  for their patterns when erasing the patterns makes them equal.
\<close>

definition without_pattern :: "parameter \<Rightarrow> parameter" where
  "without_pattern p = p\<lparr>validation := map_option (\<lambda>vd. vd\<lparr>pattern := None\<rparr>) (validation p)\<rparr>"

definition without_patterns :: "query_template \<Rightarrow> query_template" where
  "without_patterns T = T\<lparr>parameters := map without_pattern (parameters T)\<rparr>"


section \<open>Examples\<close>

text \<open>
  A runtime for the examples: its \<open>Date.parse\<close> reads one ISO date and it generates one
  id. Then the templates of the scenarios.
\<close>

definition example_runtime :: runtime where
  "example_runtime =
     \<lparr>Date_parse = (\<lambda>s. if s = ''2024-01-01T00:00:00.000Z'' then Fin 1704067200000 else NaN),
      ObjectId_generate = (\<lambda>t. ''65920080a1b2c3d4e5f60001'')\<rparr>"

definition findByUni :: query_template where
  "findByUni =
     fresh_template
       \<lparr>query := JObj [(''university'', JStr ''{{uni}}''), (''active'', JBool True)],
        parameters :=
          [\<lparr>name = ''uni'', ptype = TyString, required = True, description = None,
            defaultValue = None, validation = None\<rparr>]\<rparr>"

definition age_parameter :: "string option \<Rightarrow> parameter" where
  "age_parameter pat =
     \<lparr>name = ''age'', ptype = TyNumber, required = False, description = None,
      defaultValue = None,
      validation = Some \<lparr>vmin = Some (Fin 13), vmax = Some (Fin 120), pattern = pat,
                         venum = None\<rparr>\<rparr>"

definition findByAge :: "string option \<Rightarrow> query_template" where
  "findByAge pat =
     fresh_template
       \<lparr>qname := ''findByAge'', collection := Users,
        query := JObj [(''age'', JStr ''{{age}}'')],
        parameters := [age_parameter pat]\<rparr>"


section \<open>Lemmas on validateParameters\<close>

subsection \<open>The messages are told apart by their text\<close>

lemma parameter_message_eq [simp]:
  "parameter_message k w = parameter_message k w' \<longleftrightarrow> w = w'"
  by (simp add: parameter_message_def)

lemma unknown_message_eq [simp]: "unknown_message k = unknown_message k' \<longleftrightarrow> k = k'"
  by (simp add: unknown_message_def quoted_def)

lemma unknown_not_parameter [simp]: "unknown_message k \<noteq> parameter_message k' w"
  by (simp add: unknown_message_def parameter_message_def)

lemma unknown_not_required [simp]: "unknown_message k \<noteq> required_message k'"
  by (simp add: unknown_message_def required_message_def)

lemma message_kinds [simp]:
  "at_least_message k m \<noteq> at_most_message k M"
  "at_least_message k m \<noteq> number_message k"
  "at_least_message k m \<noteq> enum_message k en"
  "at_most_message k M \<noteq> at_least_message k m"
  "at_most_message k M \<noteq> number_message k"
  "at_most_message k M \<noteq> enum_message k en"
  "number_message k \<noteq> at_least_message k m"
  "number_message k \<noteq> at_most_message k M"
  "number_message k \<noteq> enum_message k en"
  "objectId_message k \<noteq> enum_message k en"
  by (simp_all add: at_least_message_def at_most_message_def number_message_def
      enum_message_def objectId_message_def)

lemma check_required_ok:
  "''hasOwnProperty'' \<notin> fst ` set P \<Longrightarrow>
   check_required P ps errs =
     Inr (errs @ map (\<lambda>p. required_message (name p))
                   (filter (\<lambda>p. required p \<and> name p \<notin> fst ` set P) ps))"
  by (induction ps arbitrary: errs) (simp_all add: hasOwnProperty_def)

lemma check_required_throws:
  "''hasOwnProperty'' \<in> fst ` set P \<Longrightarrow> \<exists>p\<in>set ps. required p \<Longrightarrow>
   check_required P ps errs = Inl TypeError"
  by (induction ps arbitrary: errs) (auto simp: hasOwnProperty_def)














subsection \<open>One entry\<close>

lemma js_isNaN_number: "ToNumber v = Inr n \<Longrightarrow> js_isNaN v = Inr (n = NaN)"
  by (simp add: js_isNaN_def)

lemma check_entry_number:
  assumes pd: "find (\<lambda>p. name p = k) (parameters T) = Some pd"
    and ty: "ptype pd = TyNumber"
    and n: "ToNumber v = Inr n" "n \<noteq> NaN"
  shows "check_entry rt T (k, v) =
           Inr ((case validation pd of
                   None \<Rightarrow> []
                 | Some vd \<Rightarrow>
                     (case vmin vd of
                        None \<Rightarrow> []
                      | Some m \<Rightarrow> if js_lt n m then [at_least_message k m] else [])
                     @ (case vmax vd of
                          None \<Rightarrow> []
                        | Some M \<Rightarrow> if js_gt n M then [at_most_message k M] else []))
                @ enum_validation pd k v)"
  using assms
  by (simp add: check_entry_def type_validation_def range_validation_def js_isNaN_number
      min_validation_def max_validation_def less_than_def greater_than_def
      split: option.splits)

lemma enum_validation_not_range:
  "at_least_message k x \<notin> set (enum_validation pd k v)"
  "at_most_message k x \<notin> set (enum_validation pd k v)"
  "number_message k \<notin> set (enum_validation pd k v)"
  by (auto simp: enum_validation_def split: option.splits)

lemma check_entries_keeps:
  "check_entries rt T es errs = Inr all \<Longrightarrow> set errs \<subseteq> set all"
proof (induction es arbitrary: errs)
  case Nil
  then show ?case by simp
next
  case (Cons x es)
  from Cons.prems obtain nx where "check_entries rt T es (errs @ nx) = Inr all"
    by (auto split: sum.splits)
  from Cons.IH [OF this] show ?case
    by simp
qed

lemma check_entries_append:
  "check_entries rt T es errs = Inr all \<Longrightarrow> e \<in> set es \<Longrightarrow>
   \<exists>new. check_entry rt T e = Inr new \<and> set new \<subseteq> set all \<and> set errs \<subseteq> set all"
proof (induction es arbitrary: errs)
  case Nil
  then show ?case by simp
next
  case (Cons x es)
  from Cons.prems(1) obtain nx where nx: "check_entry rt T x = Inr nx"
    and rest: "check_entries rt T es (errs @ nx) = Inr all"
    by (auto split: sum.splits)
  show ?case
  proof (cases "e = x")
    case True
    with nx check_entries_keeps [OF rest] show ?thesis by auto
  next
    case False
    with Cons.prems(2) have "e \<in> set es"
      by simp
    from Cons.IH [OF rest this] show ?thesis
      by auto
  qed
qed

lemma validateParameters_entry:
  assumes "validateParameters rt T P = Inr all" "e \<in> set P"
  shows "\<exists>new. check_entry rt T e = Inr new \<and> set new \<subseteq> set all"
proof -
  from assms(1) obtain req where "check_entries rt T P req = Inr all"
    by (auto simp: validateParameters_def split: sum.splits)
  from check_entries_append [OF this assms(2)] show ?thesis
    by blast
qed





lemma StringToNumber_empty: "StringToNumber [] = Fin 0"
  by (simp add: StringToNumber_def trim_def)

subsection \<open>When validateParameters returns\<close>





subsection \<open>Erasing the patterns\<close>

lemma without_pattern_fields [simp]:
  "name (without_pattern p) = name p"
  "ptype (without_pattern p) = ptype p"
  "required (without_pattern p) = required p"
  by (simp_all add: without_pattern_def)

lemma check_required_without_pattern:
  "check_required P (map without_pattern ps) errs = check_required P ps errs"
  by (induction ps arbitrary: errs) (simp_all split: sum.splits)

lemma find_without_pattern:
  "find (\<lambda>p. name p = k) (map without_pattern ps)
     = map_option without_pattern (find (\<lambda>p. name p = k) ps)"
  by (induction ps) simp_all

lemma type_validation_without_pattern:
  "type_validation rt (without_pattern pd) k v = type_validation rt pd k v"
  by (simp add: type_validation_def)

lemma range_validation_without_pattern:
  "range_validation (without_pattern pd) k v = range_validation pd k v"
  by (cases "validation pd")
    (simp_all add: range_validation_def without_pattern_def min_validation_def
      max_validation_def cong: sum.case_cong if_cong)

lemma enum_validation_without_pattern:
  "enum_validation (without_pattern pd) k v = enum_validation pd k v"
  by (cases "validation pd") (simp_all add: enum_validation_def without_pattern_def)

lemma check_entry_without_patterns:
  "check_entry rt (without_patterns T) e = check_entry rt T e"
proof (cases e)
  case (Pair k v)
  show ?thesis
    unfolding Pair
    by (cases "find (\<lambda>p. name p = k) (parameters T)")
      (simp_all add: check_entry_def without_patterns_def find_without_pattern
        type_validation_without_pattern range_validation_without_pattern
        enum_validation_without_pattern cong: sum.case_cong)
qed

lemma check_entries_without_patterns:
  "check_entries rt (without_patterns T) es errs = check_entries rt T es errs"
  by (induction es arbitrary: errs)
    (simp_all add: check_entry_without_patterns cong: sum.case_cong)

lemma parameters_without_patterns:
  "parameters (without_patterns T) = map without_pattern (parameters T)"
  by (simp add: without_patterns_def)

lemma validateParameters_without_patterns:
  "validateParameters rt (without_patterns T) P = validateParameters rt T P"
  by (simp add: validateParameters_def check_entries_without_patterns
      parameters_without_patterns check_required_without_pattern cong: sum.case_cong)

section \<open>Lemmas on recordExecution\<close>



section \<open>The claims\<close>

subsection \<open>substituteParameters\<close>

lemma string_placeholder_text:
  "JSON_parse
     (replace_global
        (JSON_stringify (JObj [(''university'', JStr ''{{uni}}''), (''active'', JBool True)]))
        ''{{uni}}'' (JSON_stringify (JStr ''Colombo'')))
   = Inl JSONSyntaxError"
  by code_simp

lemma number_placeholder_text:
  "ToNumber (JStr ''42'') = Inr (Fin 42)"
  "JSON_parse
     (replace_global (JSON_stringify (JObj [(''age'', JStr ''{{age}}'')]))
        ''{{age}}'' (JSON_stringify (JNum (Fin 42))))
   = Inr (JObj [(''age'', JStr ''42'')])"
  by code_simp+

text \<open>
  C1. On a template whose query document is \<open>{university: "{{uni}}", active: true}\<close> and
  whose only parameter is \<open>uni\<close>, of type string and required,
  \<open>substituteParameters({uni: "Colombo"})\<close> does not return
  \<open>{university: "Colombo", active: true}\<close>: the placeholder stands between the quotes of
  the serialized document and is replaced by a quoted text, so the text handed to
  \<open>JSON.parse\<close> is \<open>{"university":""Colombo"","active":true}\<close> and the call throws a
  SyntaxError.
\<close>

theorem substitute_string_parameter_throws:
  assumes "query T = JObj [(''university'', JStr ''{{uni}}''), (''active'', JBool True)]"
    and "parameters T = [pd]" "name pd = ''uni''" "ptype pd = TyString" "required pd"
  shows "substituteParameters rt T [(''uni'', JStr ''Colombo'')] = Thrown SyntaxError \<and>
         substituteParameters rt T [(''uni'', JStr ''Colombo'')]
           \<noteq> Document (JObj [(''university'', JStr ''Colombo''), (''active'', JBool True)])"
proof -
  have "substituteParameters rt T [(''uni'', JStr ''Colombo'')] =
          (case JSON_parse
                  (replace_global (JSON_stringify (query T)) ''{{uni}}''
                     (JSON_stringify (JStr ''Colombo''))) of
             Inl JSONSyntaxError \<Rightarrow> Thrown SyntaxError
           | Inl NotRepresentable \<Rightarrow> OutsideModel
           | Inr document \<Rightarrow> Document document)"
    using assms(2-4)
    by (simp add: substituteParameters_def substitution_text_def del: JSON_stringify.simps)
  then show ?thesis
    by (simp only: assms(1) string_placeholder_text) simp
qed

theorem substitute_string_parameter_throws_witness:
  "query findByUni = JObj [(''university'', JStr ''{{uni}}''), (''active'', JBool True)] \<and>
   substituteParameters example_runtime findByUni [(''uni'', JStr ''Colombo'')]
     = Thrown SyntaxError"
  using substitute_string_parameter_throws
    [of findByUni
      "\<lparr>name = ''uni'', ptype = TyString, required = True, description = None,
        defaultValue = None, validation = None\<rparr>" example_runtime]
  by (simp add: findByUni_def fresh_template_def)

text \<open>
  C2. On a template whose query document is \<open>{age: "{{age}}"}\<close> and whose only parameter
  is \<open>age\<close>, of type number, substituting the numeric string \<open>"42"\<close> does not give the
  number 42 at that position: the value is converted to the number 42 and written
  \<open>42\<close>, but the quotes around the placeholder stay, and the document returned is
  \<open>{age: "42"}\<close>, with the string.
\<close>

theorem substitute_number_parameter_stays_string:
  assumes "query T = JObj [(''age'', JStr ''{{age}}'')]"
    and "parameters T = [pd]" "name pd = ''age''" "ptype pd = TyNumber"
  shows "substituteParameters rt T [(''age'', JStr ''42'')]
           = Document (JObj [(''age'', JStr ''42'')]) \<and>
         substituteParameters rt T [(''age'', JStr ''42'')]
           \<noteq> Document (JObj [(''age'', JNum (Fin 42))])"
proof -
  have "substituteParameters rt T [(''age'', JStr ''42'')] =
          (case JSON_parse
                  (replace_global (JSON_stringify (query T)) ''{{age}}''
                     (JSON_stringify (JNum (Fin 42)))) of
             Inl JSONSyntaxError \<Rightarrow> Thrown SyntaxError
           | Inl NotRepresentable \<Rightarrow> OutsideModel
           | Inr document \<Rightarrow> Document document)"
    using assms(2-4)
    by (simp add: substituteParameters_def substitution_text_def number_placeholder_text(1)
        del: JSON_stringify.simps ToNumber.simps)
  then show ?thesis
    by (simp only: assms(1) number_placeholder_text(2)) simp
qed

theorem substitute_number_parameter_stays_string_witness:
  "query (findByAge None) = JObj [(''age'', JStr ''{{age}}'')] \<and>
   parameters (findByAge None) = [age_parameter None] \<and>
   substituteParameters example_runtime (findByAge None) [(''age'', JStr ''42'')]
     = Document (JObj [(''age'', JStr ''42'')])"
  using substitute_number_parameter_stays_string
    [of "findByAge None" "age_parameter None" example_runtime]
  by (simp add: findByAge_def fresh_template_def age_parameter_def)

subsection \<open>recordExecution\<close>





subsection \<open>validateParameters\<close>

text \<open>
  C4. When the provided object has no own property named \<open>hasOwnProperty\<close>, the first
  loop pushes \<open>Required parameter '<name>' is missing\<close> for exactly the entries of
  \<open>parameters\<close> that are required and whose name is not a key of the object, one message
  per entry and in their order. When it has one and a parameter is required, the call
  \<open>providedParams.hasOwnProperty(...)\<close> throws a TypeError and \<open>validateParameters\<close>
  returns no list at all.
\<close>

theorem required_check_throws_on_own_hasOwnProperty:
  "(''hasOwnProperty'' \<notin> fst ` set P \<longrightarrow>
      check_required P (parameters T) [] =
        Inr (map (\<lambda>p. required_message (name p))
               (filter (\<lambda>p. required p \<and> name p \<notin> fst ` set P) (parameters T)))) \<and>
   (''hasOwnProperty'' \<in> fst ` set P \<longrightarrow> (\<exists>p\<in>set (parameters T). required p) \<longrightarrow>
      validateParameters rt T P = Inl TypeError)"
  by (simp add: check_required_ok check_required_throws validateParameters_def)

theorem required_check_throws_on_own_hasOwnProperty_witness:
  "''hasOwnProperty'' \<in> fst ` set [(''hasOwnProperty'', JStr ''x'')] \<and>
   (\<exists>p\<in>set (parameters findByUni). required p) \<and>
   validateParameters example_runtime findByUni [(''hasOwnProperty'', JStr ''x'')]
     = Inl TypeError \<and>
   check_required [] (parameters findByUni) [] = Inr [required_message ''uni'']"
  using required_check_throws_on_own_hasOwnProperty
    [of "[(''hasOwnProperty'', JStr ''x'')]" findByUni example_runtime]
    required_check_throws_on_own_hasOwnProperty [of "[]" findByUni example_runtime]
  by (simp add: findByUni_def fresh_template_def)








text \<open>
  C9. Two templates that are identical except for the \<open>validation.pattern\<close> fields of their
  parameters give the same result of \<open>validateParameters\<close> on every provided object: the
  pattern is never applied.
\<close>

theorem pattern_never_applied:
  assumes "without_patterns T1 = without_patterns T2"
  shows "validateParameters rt T1 P = validateParameters rt T2 P"
proof -
  have "validateParameters rt T1 P = validateParameters rt (without_patterns T1) P"
    by (simp add: validateParameters_without_patterns)
  also have "\<dots> = validateParameters rt (without_patterns T2) P"
    by (simp add: assms)
  also have "\<dots> = validateParameters rt T2 P"
    by (simp add: validateParameters_without_patterns)
  finally show ?thesis .
qed

theorem pattern_never_applied_witness:
  "without_patterns (findByAge (Some ''[0-9]+'')) = without_patterns (findByAge None) \<and>
   findByAge (Some ''[0-9]+'') \<noteq> findByAge None \<and>
   validateParameters example_runtime (findByAge (Some ''[0-9]+'')) [(''age'', JStr ''abc'')]
     = validateParameters example_runtime (findByAge None) [(''age'', JStr ''abc'')] \<and>
   validateParameters example_runtime (findByAge None) [(''age'', JStr ''abc'')]
     = Inr [number_message ''age'']"
proof -
  have same: "without_patterns (findByAge (Some ''[0-9]+'')) = without_patterns (findByAge None)"
    by (simp add: without_patterns_def without_pattern_def findByAge_def age_parameter_def)
  have differ: "findByAge (Some ''[0-9]+'') \<noteq> findByAge None"
    by (simp add: findByAge_def age_parameter_def fresh_template_def)
  have res: "validateParameters example_runtime (findByAge None) [(''age'', JStr ''abc'')]
               = Inr [number_message ''age'']"
    by code_simp
  show ?thesis
    using pattern_never_applied [OF same, of example_runtime "[(''age'', JStr ''abc'')]"]
      same differ res
    by simp
qed

text \<open>
  C10. For a parameter of type number and a provided value that is a boolean, null or the
  empty string, \<open>isNaN\<close> is false and no \<open>must be a number\<close> message is pushed; the range
  checks then compare the value as the language converts it (1 for true, 0 for false,
  null and the empty string) with \<open>min\<close> and \<open>max\<close>.
\<close>

theorem number_check_accepts_coercible:
  assumes pd: "find (\<lambda>p. name p = k) (parameters T) = Some pd"
    and ty: "ptype pd = TyNumber"
    and v: "v = JBool b \<or> v = JNull \<or> v = JStr []"
  shows "\<exists>errs n. check_entry rt T (k, v) = Inr errs \<and>
           js_isNaN v = Inr False \<and>
           number_message k \<notin> set errs \<and>
           n = Fin (if v = JBool True then 1 else 0) \<and>
           ToNumber v = Inr n \<and>
           (\<forall>vd m. validation pd = Some vd \<longrightarrow> vmin vd = Some m \<longrightarrow>
              (at_least_message k m \<in> set errs \<longleftrightarrow> js_lt n m)) \<and>
           (\<forall>vd M. validation pd = Some vd \<longrightarrow> vmax vd = Some M \<longrightarrow>
              (at_most_message k M \<in> set errs \<longleftrightarrow> js_gt n M)) \<and>
           (\<forall>P all. (k, v) \<in> set P \<longrightarrow> validateParameters rt T P = Inr all \<longrightarrow>
              set errs \<subseteq> set all)"
proof -
  let ?n = "Fin (if v = JBool True then 1 else 0)"
  have n: "ToNumber v = Inr ?n" "?n \<noteq> NaN"
    using v by (cases b) (auto simp: StringToNumber_empty)
  let ?errs = "(case validation pd of
                   None \<Rightarrow> []
                 | Some vd \<Rightarrow>
                     (case vmin vd of
                        None \<Rightarrow> []
                      | Some m \<Rightarrow> if js_lt ?n m then [at_least_message k m] else [])
                     @ (case vmax vd of
                          None \<Rightarrow> []
                        | Some M \<Rightarrow> if js_gt ?n M then [at_most_message k M] else []))
                @ enum_validation pd k v"
  have e: "check_entry rt T (k, v) = Inr ?errs"
    using pd ty n by (rule check_entry_number)
  have sub: "\<forall>P all. (k, v) \<in> set P \<longrightarrow> validateParameters rt T P = Inr all \<longrightarrow> set ?errs \<subseteq> set all"
    using validateParameters_entry [of rt T _ _ "(k, v)"] e by fastforce
  have nan: "js_isNaN v = Inr False"
    using n by (simp add: js_isNaN_number)
  have msgs: "number_message k \<notin> set ?errs"
    "\<forall>vd m. validation pd = Some vd \<longrightarrow> vmin vd = Some m \<longrightarrow>
       (at_least_message k m \<in> set ?errs \<longleftrightarrow> js_lt ?n m)"
    "\<forall>vd M. validation pd = Some vd \<longrightarrow> vmax vd = Some M \<longrightarrow>
       (at_most_message k M \<in> set ?errs \<longleftrightarrow> js_gt ?n M)"
    by (auto simp: enum_validation_not_range split: option.splits)
  from e nan n(1) msgs sub show ?thesis
    by blast
qed

theorem number_check_accepts_coercible_witness:
  "find (\<lambda>p. name p = ''age'') (parameters (findByAge None)) = Some (age_parameter None) \<and>
   check_entry example_runtime (findByAge None) (''age'', JNull)
     = Inr [at_least_message ''age'' (Fin 13)] \<and>
   check_entry example_runtime (findByAge None) (''age'', JBool True)
     = Inr [at_least_message ''age'' (Fin 13)] \<and>
   check_entry example_runtime (findByAge None) (''age'', JStr [])
     = Inr [at_least_message ''age'' (Fin 13)] \<and>
   js_lt (Fin 0) (Fin 13)"
proof -
  have pd: "find (\<lambda>p. name p = ''age'') (parameters (findByAge None)) = Some (age_parameter None)"
    by (simp add: findByAge_def fresh_template_def age_parameter_def)
  have ty: "ptype (age_parameter None) = TyNumber"
    by (simp add: age_parameter_def)
  have evaluated:
    "check_entry example_runtime (findByAge None) (''age'', JNull)
       = Inr [at_least_message ''age'' (Fin 13)]"
    "check_entry example_runtime (findByAge None) (''age'', JBool True)
       = Inr [at_least_message ''age'' (Fin 13)]"
    "check_entry example_runtime (findByAge None) (''age'', JStr [])
       = Inr [at_least_message ''age'' (Fin 13)]"
    by code_simp+
  show ?thesis
    using number_check_accepts_coercible
        [OF pd ty, where v = JNull and rt = example_runtime] pd evaluated
    by simp
qed

end
